theory Spec2Isabelle
  imports Complex_Main "HOL-Library.AList"
begin

section \<open>JavaScript values\<close>

text \<open>
  A JavaScript number is a finite value, one of the two infinities, or NaN. Finite
  values are kept as exact rationals (every double is one): arithmetic below is exact,
  so the rounding of a double operation to the nearest double is not part of the
  model, and neither is the sign of zero. Comparisons with NaN are false, as in the
  language.
\<close>

datatype jsnum = NaN | NegInf | Fin rat | PosInf

fun isNaN :: "jsnum \<Rightarrow> bool" where
  "isNaN NaN = True"
| "isNaN _ = False"

text \<open>\<open>jn_lt a b\<close> is \<open>a < b\<close>, \<open>jn_le a b\<close> is \<open>a <= b\<close>.\<close>

fun jn_lt :: "jsnum \<Rightarrow> jsnum \<Rightarrow> bool" where
  "jn_lt NaN _ = False"
| "jn_lt _ NaN = False"
| "jn_lt _ NegInf = False"
| "jn_lt NegInf _ = True"
| "jn_lt PosInf _ = False"
| "jn_lt (Fin x) (Fin y) = (x < y)"
| "jn_lt (Fin x) PosInf = True"

fun jn_le :: "jsnum \<Rightarrow> jsnum \<Rightarrow> bool" where
  "jn_le NaN _ = False"
| "jn_le _ NaN = False"
| "jn_le NegInf _ = True"
| "jn_le _ PosInf = True"
| "jn_le PosInf _ = False"
| "jn_le (Fin x) (Fin y) = (x \<le> y)"
| "jn_le (Fin x) NegInf = False"

definition jn_ge :: "jsnum \<Rightarrow> jsnum \<Rightarrow> bool" where
  "jn_ge a b = jn_le b a"

definition jn_gt :: "jsnum \<Rightarrow> jsnum \<Rightarrow> bool" where
  "jn_gt a b = jn_lt b a"

fun jn_neg :: "jsnum \<Rightarrow> jsnum" where
  "jn_neg NaN = NaN"
| "jn_neg NegInf = PosInf"
| "jn_neg PosInf = NegInf"
| "jn_neg (Fin x) = Fin (- x)"

fun jn_add :: "jsnum \<Rightarrow> jsnum \<Rightarrow> jsnum" where
  "jn_add NaN _ = NaN"
| "jn_add _ NaN = NaN"
| "jn_add PosInf NegInf = NaN"
| "jn_add NegInf PosInf = NaN"
| "jn_add PosInf _ = PosInf"
| "jn_add _ PosInf = PosInf"
| "jn_add NegInf _ = NegInf"
| "jn_add _ NegInf = NegInf"
| "jn_add (Fin x) (Fin y) = Fin (x + y)"

definition jn_sub :: "jsnum \<Rightarrow> jsnum \<Rightarrow> jsnum" where
  "jn_sub a b = jn_add a (jn_neg b)"

text \<open>The sign of a number that is not NaN, for the product with an infinity.\<close>

fun jn_sgn :: "jsnum \<Rightarrow> int" where
  "jn_sgn NaN = 0"
| "jn_sgn NegInf = - 1"
| "jn_sgn PosInf = 1"
| "jn_sgn (Fin x) = (if x < 0 then - 1 else if x = 0 then 0 else 1)"

fun jn_mul :: "jsnum \<Rightarrow> jsnum \<Rightarrow> jsnum" where
  "jn_mul NaN _ = NaN"
| "jn_mul _ NaN = NaN"
| "jn_mul (Fin x) (Fin y) = Fin (x * y)"
| "jn_mul a b =
     (if jn_sgn a * jn_sgn b = 0 then NaN
      else if jn_sgn a * jn_sgn b < 0 then NegInf else PosInf)"

text \<open>Division by a positive finite constant, the only division the code performs
  (\<open>discount.value / 100\<close>).\<close>

fun jn_divc :: "jsnum \<Rightarrow> rat \<Rightarrow> jsnum" where
  "jn_divc (Fin x) c = Fin (x / c)"
| "jn_divc a c = a"

text \<open>\<open>Math.max\<close> of two numbers: NaN when either is NaN.\<close>

fun jn_max :: "jsnum \<Rightarrow> jsnum \<Rightarrow> jsnum" where
  "jn_max NaN _ = NaN"
| "jn_max _ NaN = NaN"
| "jn_max a b = (if jn_le a b then b else a)"

text \<open>
  \<open>parseFloat(x.toFixed(2))\<close>. \<open>toFixed(2)\<close> writes the integer \<open>n\<close> with
  \<open>n / 100\<close> nearest to the magnitude of \<open>x\<close>, the larger one on a tie, behind the
  sign of \<open>x\<close>; at a magnitude of \<open>10^21\<close> or more, and for NaN and the infinities,
  it writes the number itself, which \<open>parseFloat\<close> reads back.
\<close>

definition round2r :: "rat \<Rightarrow> rat" where
  "round2r x =
     (if 10 ^ 21 \<le> \<bar>x\<bar> then x
      else if x < 0 then - (of_int \<lfloor>(- x) * 100 + 1 / 2\<rfloor> / 100)
      else of_int \<lfloor>x * 100 + 1 / 2\<rfloor> / 100)"

fun round2 :: "jsnum \<Rightarrow> jsnum" where
  "round2 (Fin x) = Fin (round2r x)"
| "round2 a = a"

text \<open>
  Values: the primitives, plain objects as association lists of their own properties
  (the first binding of a name counts), and arrays as the list of their elements.
  Functions and the prototype chain are not modelled.
\<close>

datatype jsval =
    JUndefined
  | JNull
  | JBool bool
  | JNum jsnum
  | JStr string
  | JObj "(string \<times> jsval) list"
  | JArr "jsval list"

fun truthy :: "jsval \<Rightarrow> bool" where
  "truthy JUndefined = False"
| "truthy JNull = False"
| "truthy (JBool b) = b"
| "truthy (JNum NaN) = False"
| "truthy (JNum (Fin x)) = (x \<noteq> 0)"
| "truthy (JNum _) = True"
| "truthy (JStr s) = (s \<noteq> [])"
| "truthy (JObj _) = True"
| "truthy (JArr _) = True"

fun typeof :: "jsval \<Rightarrow> string" where
  "typeof JUndefined = ''undefined''"
| "typeof JNull = ''object''"
| "typeof (JBool _) = ''boolean''"
| "typeof (JNum _) = ''number''"
| "typeof (JStr _) = ''string''"
| "typeof (JObj _) = ''object''"
| "typeof (JArr _) = ''object''"

text \<open>
  Reading a named property (\<open>v.quantity\<close>, \<open>v.value\<close>, ...). Only an object has
  the properties the code reads; a primitive or an array gives \<open>undefined\<close>. On
  \<open>null\<close> and \<open>undefined\<close> the read throws; every read in the code sits behind a
  truthiness test of the value, so that branch is never taken and is given
  \<open>undefined\<close> here.
\<close>

fun get_prop :: "jsval \<Rightarrow> string \<Rightarrow> jsval" where
  "get_prop (JObj fs) k = (case map_of fs k of Some v \<Rightarrow> v | None \<Rightarrow> JUndefined)"
| "get_prop _ k = JUndefined"

section \<open>Pricing engine\<close>

text \<open>
  The discount label is a template string over the discount value; the two templates
  are kept as constructors: \<open>PercentOff v\<close> is the text \<open>v% off\<close>, \<open>MinusDollar v\<close>
  the text \<open>-$\<close> followed by \<open>v.toFixed(2)\<close>.
\<close>

datatype discount_label = PercentOff jsnum | MinusDollar jsnum

record price_result =
  finalPrice :: jsval
  discountText :: "discount_label option"
  originalPrice :: jsval
  hasDiscount :: bool

text \<open>The first half of \<open>calculateDiscountedPrice\<close>: the discount applied to a valid
  price, before rounding. The result is (finalPrice, discountText, hasDiscount).\<close>

definition applyDiscount :: "jsnum \<Rightarrow> jsval \<Rightarrow> jsnum \<times> discount_label option \<times> bool" where
  "applyDiscount price discount =
     (if truthy discount
      then
        (case get_prop discount ''value'' of
           JNum v \<Rightarrow>
             if jn_gt v (Fin 0)
             then
               if get_prop discount ''type'' = JStr ''percent'' \<and> jn_gt v (Fin 0) \<and> jn_le v (Fin 100)
               then (jn_mul price (jn_sub (Fin 1) (jn_divc v 100)), Some (PercentOff v), True)
               else if get_prop discount ''type'' = JStr ''fixed''
               then
                 (let fp = jn_max (Fin 0) (jn_sub price v)
                  in if jn_lt fp price then (fp, Some (MinusDollar v), True)
                     else (price, None, False))
               else (price, None, False)
             else (price, None, False)
         | _ \<Rightarrow> (price, None, False))
      else (price, None, False))"

definition calculateDiscountedPrice :: "jsval \<Rightarrow> jsval \<Rightarrow> price_result" where
  "calculateDiscountedPrice price discount =
     (case price of
        JNum p \<Rightarrow>
          if isNaN p \<or> jn_lt p (Fin 0)
          then \<lparr>finalPrice = price, discountText = None, originalPrice = price, hasDiscount = False\<rparr>
          else
            (case applyDiscount p discount of
               (fp, lbl, flag) \<Rightarrow>
                 if jn_ge (round2 fp) p
                 then \<lparr>finalPrice = JNum p, discountText = None,
                        originalPrice = JNum (round2 p), hasDiscount = False\<rparr>
                 else \<lparr>finalPrice = JNum (round2 fp), discountText = lbl,
                        originalPrice = JNum (round2 p), hasDiscount = flag\<rparr>)
      | _ \<Rightarrow> \<lparr>finalPrice = price, discountText = None, originalPrice = price, hasDiscount = False\<rparr>)"

definition defaultResult :: "jsval \<Rightarrow> price_result" where
  "defaultResult price =
     \<lparr>finalPrice = price, discountText = None, originalPrice = price, hasDiscount = False\<rparr>"

section \<open>Client storage\<close>

text \<open>
  \<open>localStorage\<close> and \<open>sessionStorage\<close> map keys to text. A stored text is either
  a literal the code wrote or found (\<open>Text\<close>), or the output of \<open>JSON.stringify\<close> on
  a value (\<open>Json v\<close>), kept symbolically. \<open>setItem\<close> throws when the store refuses
  the write (quota, private mode); the flag \<open>refusing\<close> stands for that.
  \<open>JSON.parse\<close> is a built-in: the functions that call it take its outcome on the
  text they read as an argument, \<open>None\<close> when it throws.
\<close>

datatype stored = Text string | Json jsval

record storage =
  items :: "string \<rightharpoonup> stored"
  refusing :: bool

definition getItem :: "storage \<Rightarrow> string \<Rightarrow> stored option" where
  "getItem st k = items st k"

definition setItem :: "storage \<Rightarrow> string \<Rightarrow> stored \<Rightarrow> storage option" where
  "setItem st k v = (if refusing st then None else Some (st\<lparr>items := (items st)(k \<mapsto> v)\<rparr>))"

section \<open>Cart ledger\<close>



definition cartItem :: "(string \<times> jsval) list \<Rightarrow> string \<Rightarrow> jsval" where
  "cartItem c k = (case map_of c k of Some v \<Rightarrow> v | None \<Rightarrow> JUndefined)"

text \<open>The test of the validation sweep, as written: an item that meets it is deleted.\<close>

definition invalidItem :: "jsval \<Rightarrow> bool" where
  "invalidItem item =
     (\<not> truthy item
      \<or> typeof (get_prop item ''quantity'') \<noteq> ''number''
      \<or> typeof (get_prop item ''price'') \<noteq> ''number''
      \<or> (case get_prop item ''quantity'' of JNum q \<Rightarrow> jn_le q (Fin 0) | _ \<Rightarrow> False)
      \<or> (case get_prop item ''price'' of JNum p \<Rightarrow> isNaN p | _ \<Rightarrow> False))"





text \<open>
  \<open>item.quantity++\<close>. A quantity that is not a number is first converted by the
  built-in ToNumber, passed in as \<open>toNumber\<close>. The write lands on an object; on a
  primitive it is lost. (An array would take it as a named property, which \<open>JArr\<close>
  does not record; it is left as it is.)
\<close>

definition increment :: "(jsval \<Rightarrow> jsnum) \<Rightarrow> jsval \<Rightarrow> jsval" where
  "increment toNumber v = JNum (jn_add (case v of JNum n \<Rightarrow> n | _ \<Rightarrow> toNumber v) (Fin 1))"



section \<open>Recently viewed\<close>

text \<open>\<open>parsed\<close> is the outcome of \<open>JSON.parse(stored)\<close>, consulted only when the
  stored text is there and not empty.\<close>

definition getRecentlyViewedIds :: "jsval option \<Rightarrow> storage \<Rightarrow> jsval" where
  "getRecentlyViewedIds parsed ss =
     (case getItem ss ''recentlyViewedProducts'' of
        None \<Rightarrow> JArr []
      | Some t \<Rightarrow>
          if t = Text [] then JArr []
          else (case parsed of None \<Rightarrow> JArr [] | Some v \<Rightarrow> v))"

text \<open>
  \<open>addRecentlyViewedId\<close>, with \<open>MAX_RECENTLY_VIEWED = 8\<close>. Only an array has
  \<open>filter\<close>: on any other parsed value the call throws and the \<open>catch\<close> leaves
  the store as it was, as it does when \<open>setItem\<close> throws.
\<close>

definition MAX_RECENTLY_VIEWED :: nat where
  "MAX_RECENTLY_VIEWED = 8"

definition addRecentlyViewedId :: "jsval option \<Rightarrow> string \<Rightarrow> storage \<Rightarrow> storage" where
  "addRecentlyViewedId parsed productId ss =
     (if productId = [] then ss
      else
        (case getRecentlyViewedIds parsed ss of
           JArr ids \<Rightarrow>
             (case setItem ss ''recentlyViewedProducts''
                     (Json (JArr (take MAX_RECENTLY_VIEWED
                                    (JStr productId # filter (\<lambda>x. x \<noteq> JStr productId) ids)))) of
                Some ss' \<Rightarrow> ss'
              | None \<Rightarrow> ss)
         | _ \<Rightarrow> ss))"

section \<open>Filter and search\<close>

text \<open>Strings are byte strings here: \<open>toLowerCase\<close> and \<open>trim\<close> are modelled on
  ASCII (letters A to Z; tab, line feed, vertical tab, form feed, carriage return,
  space).\<close>

definition lowerChar :: "char \<Rightarrow> char" where
  "lowerChar c = (if 65 \<le> (of_char c :: nat) \<and> (of_char c :: nat) \<le> 90
                  then char_of ((of_char c :: nat) + 32) else c)"

definition toLowerCase :: "string \<Rightarrow> string" where
  "toLowerCase s = map lowerChar s"

definition isSpace :: "char \<Rightarrow> bool" where
  "isSpace c = ((of_char c :: nat) = 32 \<or> (9 \<le> (of_char c :: nat) \<and> (of_char c :: nat) \<le> 13))"











section \<open>Overlays\<close>

text \<open>
  The state is the set of elements that carry the class \<open>visible\<close>: the three
  sidebars, the quick-view modal, the auth modal, and the four backdrops. Focus, ARIA
  attributes and the scroll lock are left out, as are the timers that only move focus.
  All elements are taken to exist on the page.
\<close>

datatype sidebar = MobileNav | CartSidebar | FilterSidebar

datatype element =
    Sidebar sidebar
  | Overlay
  | ProductModal
  | ModalOverlay
  | AuthModal
  | AuthModalOverlay
  | ZoomOverlay


















text \<open>The states with at most one overlay open, each with its own backdrop and
  nothing else.\<close>

definition exclusive :: "element set \<Rightarrow> bool" where
  "exclusive s =
     (s = {} \<or> s = {Sidebar MobileNav, Overlay} \<or> s = {Sidebar CartSidebar, Overlay}
      \<or> s = {Sidebar FilterSidebar, Overlay} \<or> s = {ProductModal, ModalOverlay}
      \<or> s = {AuthModal, AuthModalOverlay} \<or> s = {ZoomOverlay})"

section \<open>Sample data\<close>








section \<open>Properties of the pricing engine\<close>



lemma round2r_nonneg: "0 \<le> x \<Longrightarrow> 0 \<le> round2r x"
  by (simp add: round2r_def)

lemma jn_sub_Fin [simp]: "jn_sub (Fin a) (Fin b) = Fin (a - b)"
  by (simp add: jn_sub_def)

lemma jn_sub_Fin_PosInf [simp]: "jn_sub (Fin a) PosInf = NegInf"
  by (simp add: jn_sub_def)

lemma applyDiscount_cases:
  "applyDiscount p d = (p, None, False)
   \<or> (\<exists>v. truthy d \<and> get_prop d ''value'' = JNum v \<and> jn_gt v (Fin 0) \<and> jn_le v (Fin 100)
          \<and> get_prop d ''type'' = JStr ''percent''
          \<and> applyDiscount p d = (jn_mul p (jn_sub (Fin 1) (jn_divc v 100)), Some (PercentOff v), True))
   \<or> (\<exists>v. truthy d \<and> get_prop d ''value'' = JNum v \<and> jn_gt v (Fin 0)
          \<and> get_prop d ''type'' = JStr ''fixed''
          \<and> jn_lt (jn_max (Fin 0) (jn_sub p v)) p
          \<and> applyDiscount p d = (jn_max (Fin 0) (jn_sub p v), Some (MinusDollar v), True))"
  by (cases "get_prop d ''value''") (simp_all add: applyDiscount_def Let_def)









text \<open>
  C8. A price that is not of type number, is NaN, or is below zero (negative infinity
  included) comes back unchanged in the default result, whatever the discount.
  Positive infinity is not caught by the guard; it still ends in the default result,
  except under a percent discount of exactly 100.
\<close>

theorem invalid_price_passthrough:
  "(typeof price \<noteq> ''number'' \<or> price = JNum NaN \<or> (\<exists>n. price = JNum n \<and> jn_lt n (Fin 0))
      \<longrightarrow> calculateDiscountedPrice price d = defaultResult price)
   \<and> (\<not> (truthy d \<and> get_prop d ''type'' = JStr ''percent'' \<and> get_prop d ''value'' = JNum (Fin 100))
      \<longrightarrow> calculateDiscountedPrice (JNum PosInf) d = defaultResult (JNum PosInf))"
proof (intro conjI impI)
  assume "typeof price \<noteq> ''number'' \<or> price = JNum NaN \<or> (\<exists>n. price = JNum n \<and> jn_lt n (Fin 0))"
  then show "calculateDiscountedPrice price d = defaultResult price"
    by (cases price) (auto simp: calculateDiscountedPrice_def defaultResult_def)
next
  assume n: "\<not> (truthy d \<and> get_prop d ''type'' = JStr ''percent'' \<and> get_prop d ''value'' = JNum (Fin 100))"
  obtain fp lbl flag where a: "applyDiscount PosInf d = (fp, lbl, flag)"
    by (cases "applyDiscount PosInf d") blast
  have "fp = PosInf"
  proof -
    consider (none) "applyDiscount PosInf d = (PosInf, None, False)"
    | (percent) v where "truthy d" "get_prop d ''value'' = JNum v" "get_prop d ''type'' = JStr ''percent''"
        "jn_gt v (Fin 0)" "jn_le v (Fin 100)"
        "applyDiscount PosInf d = (jn_mul PosInf (jn_sub (Fin 1) (jn_divc v 100)), Some (PercentOff v), True)"
    | (fixed) v where "jn_gt v (Fin 0)" "jn_lt (jn_max (Fin 0) (jn_sub PosInf v)) PosInf"
        "applyDiscount PosInf d = (jn_max (Fin 0) (jn_sub PosInf v), Some (MinusDollar v), True)"
    using applyDiscount_cases [of PosInf d] by blast
    then show ?thesis
    proof cases
      case none then show ?thesis using a by simp
    next
      case (percent v)
      then obtain c where c: "v = Fin c" "0 < c" "c \<le> 100" by (cases v) (simp_all add: jn_gt_def)
      with n percent(1-3) have "c \<noteq> 100" by auto
      with c have "0 < 1 - c / 100" by simp
      then show ?thesis using a percent(6) c by simp
    next
      case (fixed v)
      then show ?thesis by (cases v) (simp_all add: jn_sub_def jn_gt_def)
    qed
  qed
  then show "calculateDiscountedPrice (JNum PosInf) d = defaultResult (JNum PosInf)"
    using a by (simp add: calculateDiscountedPrice_def defaultResult_def jn_ge_def)
qed

theorem invalid_price_passthrough_witness:
  "jn_lt (Fin (- 5)) (Fin 0)
   \<and> calculateDiscountedPrice (JNum (Fin (- 5))) (JObj [(''type'', JStr ''fixed''), (''value'', JNum (Fin 1))])
       = defaultResult (JNum (Fin (- 5)))
   \<and> \<not> truthy JNull
   \<and> calculateDiscountedPrice (JNum PosInf) JNull = defaultResult (JNum PosInf)"
proof -
  have h: "jn_lt (Fin (- 5)) (Fin 0)" by simp
  have t: "\<not> truthy JNull" by simp
  from invalid_price_passthrough
    [of "JNum (Fin (- 5))" "JObj [(''type'', JStr ''fixed''), (''value'', JNum (Fin 1))]"]
  have 1: "calculateDiscountedPrice (JNum (Fin (- 5)))
             (JObj [(''type'', JStr ''fixed''), (''value'', JNum (Fin 1))])
           = defaultResult (JNum (Fin (- 5)))"
    using h by blast
  from invalid_price_passthrough [of JUndefined JNull]
  have 2: "calculateDiscountedPrice (JNum PosInf) JNull = defaultResult (JNum PosInf)"
    using t by blast
  from h t 1 2 show ?thesis by blast
qed

text \<open>
  C8 as stated fails for the price \<open>Infinity\<close>: with a percent discount of 100 the
  product \<open>Infinity * 0\<close> is NaN, which is returned as the final price with the
  discount flagged.
\<close>

theorem infinite_price_counterexample:
  "calculateDiscountedPrice (JNum PosInf) (JObj [(''type'', JStr ''percent''), (''value'', JNum (Fin 100))])
   = \<lparr>finalPrice = JNum NaN, discountText = Some (PercentOff (Fin 100)),
      originalPrice = JNum PosInf, hasDiscount = True\<rparr>"
  by code_simp

section \<open>Properties of the cart ledger\<close>

lemma invalidItem_undefined [simp]: "invalidItem JUndefined"
  by (simp add: invalidItem_def)





lemma cartItem_map_of:
  "cartItem c k = (case map_of c k of Some v \<Rightarrow> v | None \<Rightarrow> JUndefined)"
  by (simp add: cartItem_def)

lemma map_of_None_iff_keys: "map_of c k = None \<longleftrightarrow> k \<notin> set (map fst c)"
  by (simp add: map_of_eq_None_iff)



lemma increment_num: "increment tn (JNum q) = JNum (jn_add q (Fin 1))"
  by (simp add: increment_def)




























section \<open>Properties of the recently-viewed list\<close>

lemma filter_neq_absent: "x \<notin> set xs \<Longrightarrow> filter (\<lambda>y. y \<noteq> x) xs = xs"
  by (induction xs) auto

lemma length_filter_neq:
  "distinct xs \<Longrightarrow> x \<in> set xs \<Longrightarrow> Suc (length (filter (\<lambda>y. y \<noteq> x) xs)) = length xs"
  by (induction xs) (auto simp: filter_neq_absent)

text \<open>
  C9. Recording a non-empty id over a stored array, with a store that takes the
  write: the list persisted is the id followed by the old entries without it, cut to
  8; it starts with the id and has at most 8 entries. If the old list had no
  duplicates, neither has the new one; if moreover it had at most 8 entries and
  held the id, the new list has the same length and the same entries.
\<close>

theorem addRecentlyViewedId_front_bounded_distinct:
  assumes pid: "productId \<noteq> []"
    and acc: "\<not> refusing ss"
    and ids: "getRecentlyViewedIds parsed ss = JArr ids"
  shows "\<exists>ys. items (addRecentlyViewedId parsed productId ss) ''recentlyViewedProducts''
                 = Some (Json (JArr ys))
          \<and> ys = take 8 (JStr productId # filter (\<lambda>x. x \<noteq> JStr productId) ids)
          \<and> ys \<noteq> [] \<and> hd ys = JStr productId
          \<and> length ys \<le> 8
          \<and> (distinct ids \<longrightarrow> distinct ys)
          \<and> (distinct ids \<and> length ids \<le> 8 \<and> JStr productId \<in> set ids \<longrightarrow>
                length ys = length ids \<and> set ys = set ids)"
proof -
  let ?ys = "take 8 (JStr productId # filter (\<lambda>x. x \<noteq> JStr productId) ids)"
  have st: "items (addRecentlyViewedId parsed productId ss) ''recentlyViewedProducts''
              = Some (Json (JArr ?ys))"
    using pid acc ids by (simp add: addRecentlyViewedId_def setItem_def MAX_RECENTLY_VIEWED_def)
  have d: "distinct ids \<longrightarrow> distinct ?ys"
  proof
    assume "distinct ids"
    then show "distinct ?ys" by (intro distinct_take) simp
  qed
  have l: "length ?ys \<le> 8" by simp
  have h: "?ys \<noteq> [] \<and> hd ?ys = JStr productId" by simp
  have m: "distinct ids \<and> length ids \<le> 8 \<and> JStr productId \<in> set ids \<longrightarrow>
             length ?ys = length ids \<and> set ?ys = set ids"
  proof
    assume a: "distinct ids \<and> length ids \<le> 8 \<and> JStr productId \<in> set ids"
    then have a1: "distinct ids" and a2: "length ids \<le> 8" and a3: "JStr productId \<in> set ids"
      by simp_all
    from length_filter_neq [OF a1 a3]
    have len: "length (JStr productId # filter (\<lambda>x. x \<noteq> JStr productId) ids) = length ids" by simp
    with a2 have t: "?ys = JStr productId # filter (\<lambda>x. x \<noteq> JStr productId) ids" by simp
    show "length ?ys = length ids \<and> set ?ys = set ids" using len a3 unfolding t by auto
  qed
  show ?thesis using st d l h m by blast
qed

theorem addRecentlyViewedId_front_bounded_distinct_witness:
  "''b'' \<noteq> [] \<and> \<not> refusing \<lparr>items = [''recentlyViewedProducts'' \<mapsto> Text ''[...]''], refusing = False\<rparr>
   \<and> distinct [JStr ''a'', JStr ''b'', JStr ''c'']
   \<and> items (addRecentlyViewedId (Some (JArr [JStr ''a'', JStr ''b'', JStr ''c''])) ''b''
              \<lparr>items = [''recentlyViewedProducts'' \<mapsto> Text ''[...]''], refusing = False\<rparr>)
        ''recentlyViewedProducts''
       = Some (Json (JArr [JStr ''b'', JStr ''a'', JStr ''c'']))"
proof -
  let ?ss = "\<lparr>items = [''recentlyViewedProducts'' \<mapsto> Text ''[...]''], refusing = False\<rparr>"
  have h: "''b'' \<noteq> []" "\<not> refusing ?ss" by simp_all
  have g: "getRecentlyViewedIds (Some (JArr [JStr ''a'', JStr ''b'', JStr ''c''])) ?ss
             = JArr [JStr ''a'', JStr ''b'', JStr ''c'']"
    by (simp add: getRecentlyViewedIds_def getItem_def)
  have d: "distinct [JStr ''a'', JStr ''b'', JStr ''c'']" by simp
  from addRecentlyViewedId_front_bounded_distinct [OF h g]
  obtain ys where "items (addRecentlyViewedId (Some (JArr [JStr ''a'', JStr ''b'', JStr ''c''])) ''b'' ?ss)
        ''recentlyViewedProducts'' = Some (Json (JArr ys))"
    and "ys = take 8 (JStr ''b'' # filter (\<lambda>x. x \<noteq> JStr ''b'') [JStr ''a'', JStr ''b'', JStr ''c''])"
    by blast
  then have "items (addRecentlyViewedId (Some (JArr [JStr ''a'', JStr ''b'', JStr ''c''])) ''b'' ?ss)
        ''recentlyViewedProducts'' = Some (Json (JArr [JStr ''b'', JStr ''a'', JStr ''c'']))"
    by simp
  with h d show ?thesis by blast
qed

section \<open>Properties of the filter\<close>




lemma toLowerCase_Nil_iff [simp]: "toLowerCase s = [] \<longleftrightarrow> s = []"
  by (simp add: toLowerCase_def)

lemma isSpace_lowerChar [simp]: "isSpace (lowerChar c) = isSpace c"
  by (auto simp: lowerChar_def isSpace_def)







section \<open>Properties of the overlays\<close>







lemma exclusive_pair [simp]:
  "exclusive {Sidebar sb, Overlay}" "exclusive {ProductModal, ModalOverlay}"
  "exclusive {AuthModal, AuthModalOverlay}" "exclusive {}"
  by (cases sb) (simp_all add: exclusive_def)







end
